theory Spec2Isabelle
  imports Main
begin

section \<open>Host objects and values of extension.ts\<close>

text \<open>
  The extension entry point \<^verbatim>\<open>src/extension.ts\<close> wires an editor's testing API to a
  test runner.  Everything it does is a call into the host (the editor API, the log
  channel, the collaborating modules), so the embedding is a trace semantics: each
  function of the source becomes a function that returns the list of host calls it makes,
  in program order, together with its return value.  Closures handed to the host are
  values of small datatypes (one constructor per closure of the source, carrying the
  variables it captures); what a closure does when the host calls it back is given by an
  interpreter function whose equations are the closure bodies.

  A JavaScript value that may be \<^verbatim>\<open>undefined\<close> or \<^verbatim>\<open>null\<close> is an \<open>option\<close>.
  Three calls have an outcome that changes what the source does next, and the model
  carries it as a value: the version probe may reject (the source handles it with
  \<^verbatim>\<open>.catch\<close>), \<^verbatim>\<open>semver.gte\<close> throws on a version it cannot parse (nothing handles it,
  so \<^verbatim>\<open>activate\<close> rejects), and the awaited \<^verbatim>\<open>watch()\<close> of the watch mode handler may
  reject (the handler then rejects too).  Every other call into a collaborator is taken
  to return a value of its declared type.
\<close>

type_synonym fs_path = string

type_synonym node_env = "(string \<times> string) list"

record vitest_command =
  cmd :: string
  args :: "string list"

datatype test_controller = TestController string string

datatype file_discoverer = TestFileDiscoverer

datatype test_watcher = TestWatcher test_controller file_discoverer vitest_command

datatype status_bar_item = StatusBarItem

datatype text_document = TextDocument string

datatype text_editor = TextEditor (editor_document: text_document)

datatype text_document_change_event = TextDocumentChangeEvent (event_document: text_document)

datatype test_item = TestItem string

text \<open>The values of \<^verbatim>\<open>WEAKMAP_TEST_DATA\<close>: an instance of \<^verbatim>\<open>TestFile\<close>, or anything else.\<close>

datatype test_data = TestFile string | OtherTestData string

datatype test_run_request = TestRunRequest (request_include: "test_item list option")

datatype cancellation_token = CancellationToken

text \<open>Whether the caller awaits the promise that a call returns before it goes on.\<close>

datatype call_mode = Awaited | NotAwaited

text \<open>
  The members of \<^verbatim>\<open>Command\<close> (declared in \<^verbatim>\<open>./command\<close>) that this file names, and the
  host's \<^verbatim>\<open>TestRunProfileKind\<close>.
\<close>

datatype command = StartWatching | StopWatching | ToggleWatching | UpdateSnapshot

datatype test_run_profile_kind = Run | Debug | Coverage

text \<open>A thrown value, by what its \<^verbatim>\<open>toString()\<close> gives, and a settled promise.\<close>

datatype thrown = Thrown (toString: string)

datatype 'a settled = Resolved 'a | Rejected thrown

text \<open>The three reactive references of the watcher that this file reads.\<close>

record 's watcher_state =
  isRunning :: bool
  isWatching :: bool
  testStatus :: 's

datatype 's status_bar_call = ToRunningMode | ToWatchMode 's | ToDefaultMode

subsection \<open>Closures handed to the host\<close>

text \<open>
  \<open>StartWatchingFn\<close>, \<open>StopWatchingFn\<close>: the local functions \<^verbatim>\<open>startWatching\<close> and
  \<^verbatim>\<open>stopWatching\<close> of \<^verbatim>\<open>registerWatchHandler\<close>; \<open>ToggleWatchingFn\<close>: the arrow function
  registered for \<^verbatim>\<open>Command.ToggleWatching\<close> there; \<open>UpdateSnapshotFn\<close>: the arrow function
  of line 84; \<open>ShowWarningFn\<close>: the arrow functions of lines 92 and 95.
\<close>

datatype closure =
    StartWatchingFn test_watcher
  | StopWatchingFn test_watcher
  | ToggleWatchingFn test_watcher
  | UpdateSnapshotFn test_controller
  | ShowWarningFn string

text \<open>
  \<open>WatchModeRunHandler\<close>: the inner \<^verbatim>\<open>runHandler\<close> of \<^verbatim>\<open>registerWatchHandler\<close>;
  \<open>BoundRunHandler\<close>: \<^verbatim>\<open>runHandler.bind(null, ctrl, testWatcher)\<close>;
  \<open>BoundDebugHandler\<close>: \<^verbatim>\<open>debugHandler.bind(null, ctrl)\<close>.
\<close>

datatype run_handler =
    WatchModeRunHandler test_watcher
  | BoundRunHandler test_controller "test_watcher option"
  | BoundDebugHandler test_controller

text \<open>The arrow functions of lines 32 and 36.\<close>

datatype refresh_handler = RefreshHandler file_discoverer test_controller

datatype resolve_handler = ResolveHandler file_discoverer test_controller

text \<open>The arrow functions of lines 116 and 119.\<close>

datatype open_listener = DiscoverOnOpen file_discoverer test_controller

datatype change_listener = DiscoverOnChange file_discoverer test_controller

datatype effect_fn = StatusBarEffect test_watcher status_bar_item

datatype disposable =
    DisposeFn closure
  | WatcherDisposable test_watcher
  | StatusBarDisposable status_bar_item
  | ControllerDisposable test_controller
  | DiscovererDisposable file_discoverer
  | CommandRegistration command
  | OpenListenerRegistration open_listener
  | ChangeListenerRegistration change_listener
  | FileWatcherDisposable string

subsection \<open>Host calls\<close>

datatype 's event =
    IsVitestEnv fs_path
  | CreateTestController string string
  | NewTestFileDiscoverer
  | SetRefreshHandler test_controller refresh_handler
  | SetResolveHandler test_controller resolve_handler
  | GetVitestCommand fs_path
  | GetVitestVersion "vitest_command option" "node_env option"
  | LogAppendLine string
  | IsNodeAvailable "node_env option"
  | ShowErrorMessage string
  | ShowWarningMessage string
  | ConsoleDir "string option"
  | TestWatcherCreate test_controller file_discoverer vitest_command
  | NewStatusBarItem
  | RegisterEffect effect_fn
  | StatusBarCall status_bar_item "'s status_bar_call"
  | RegisterCommand command closure
  | CreateRunProfile string test_run_profile_kind run_handler bool
  | SubscriptionsPush "disposable list"
  | DiscoverTestFromDoc file_discoverer test_controller text_document
  | OnDidOpenTextDocument open_listener
  | OnDidChangeTextDocument change_listener
  | DiscoverAllTestFilesInWorkspace file_discoverer test_controller
  | WatchAllTestFilesInWorkspace file_discoverer test_controller
  | UpdateFromDisk test_data test_controller
  | WatcherWatch test_watcher call_mode
  | WatcherDispose test_watcher
  | WatcherRunTests test_watcher "test_item list option"
  | ConfigurationUpdate string string "string option"
  | RunHandlerCall test_controller "test_watcher option" test_run_request cancellation_token
  | DebugHandlerCall test_controller test_run_request cancellation_token
  | UpdateSnapshotCall test_controller "test_item option"
  | DisposeCall disposable

subsection \<open>What activation reads from its surroundings\<close>

text \<open>
  The workspace (each folder by its \<^verbatim>\<open>uri.fsPath\<close>), the settings behind \<^verbatim>\<open>getConfig()\<close>,
  the answers of the probes of \<^verbatim>\<open>./pure\<close>, the library functions \<^verbatim>\<open>semver.gte\<close> (\<open>Inl\<close> is
  the error it throws on a version it cannot parse) and \<^verbatim>\<open>JSON.stringify\<close>, and the
  reactive state of the watcher that \<^verbatim>\<open>TestWatcher.create\<close> returns.
\<close>

record 's host_env =
  workspaceFolders :: "fs_path list option"
  extensionId :: string
  config_enable :: bool
  config_env :: "node_env option"
  config_commandLine :: "string option"
  isVitestEnv :: "fs_path \<Rightarrow> bool"
  getVitestCommand :: "fs_path \<Rightarrow> vitest_command option"
  getVitestVersion :: "vitest_command option \<Rightarrow> node_env option \<Rightarrow> string settled"
  isNodeAvailable :: "node_env option \<Rightarrow> bool"
  semver_gte :: "string \<Rightarrow> string \<Rightarrow> thrown + bool"
  stringToCmd :: "string option \<Rightarrow> vitest_command"
  JSON_stringify :: "node_env option \<Rightarrow> string"
  process_env_PATH :: "string option"
  visibleTextEditors :: "text_editor list"
  watcher_created :: "'s watcher_state"

section \<open>The status bar effect (lines 137 to 149)\<close>

definition statusBarEffect :: "'s watcher_state \<Rightarrow> 's status_bar_call" where
  "statusBarEffect w =
     (if isRunning w then ToRunningMode
      else if isWatching w then ToWatchMode (testStatus w)
      else ToDefaultMode)"

text \<open>
  The references whose \<^verbatim>\<open>.value\<close> one run of the effect reads: \<^verbatim>\<open>isRunning\<close> always,
  \<^verbatim>\<open>isWatching\<close> only when the watcher is not running, \<^verbatim>\<open>testStatus\<close> only when it is
  watching and not running.  The reactivity library runs the effect again when one of the
  references read by its last run changes.
\<close>

datatype watcher_ref = IsRunningRef | IsWatchingRef | TestStatusRef

definition effect_reads :: "'s watcher_state \<Rightarrow> watcher_ref list" where
  "effect_reads w =
     (if isRunning w then [IsRunningRef]
      else if isWatching w then [IsRunningRef, IsWatchingRef, TestStatusRef]
      else [IsRunningRef, IsWatchingRef])"

definition same_value :: "'s watcher_state \<Rightarrow> 's watcher_state \<Rightarrow> watcher_ref \<Rightarrow> bool" where
  "same_value w w' r =
     (case r of
        IsRunningRef \<Rightarrow> isRunning w = isRunning w'
      | IsWatchingRef \<Rightarrow> isWatching w = isWatching w'
      | TestStatusRef \<Rightarrow> testStatus w = testStatus w')"

section \<open>Activation\<close>

text \<open>
  How a call of \<^verbatim>\<open>activate\<close> ends: it returns at one of its two guards, it runs to its
  last line, or it rejects with what was thrown.
\<close>

datatype activation = ReturnedEarly | Completed | Threw thrown

text \<open>A string interpolated into a template literal.\<close>

definition template :: "string option \<Rightarrow> string" where
  "template v = (case v of None \<Rightarrow> ''undefined'' | Some s \<Rightarrow> s)"

text \<open>The operator \<^verbatim>\<open>a ?? b\<close>, and the truth value of a string that may be undefined.\<close>

definition nullish :: "'a option \<Rightarrow> 'a option \<Rightarrow> 'a option" where
  "nullish a b = (case a of None \<Rightarrow> b | Some x \<Rightarrow> Some x)"

definition truthy :: "string option \<Rightarrow> bool" where
  "truthy v = (case v of None \<Rightarrow> False | Some s \<Rightarrow> s \<noteq> [])"

definition default_command :: vitest_command where
  "default_command = \<lparr>cmd = ''npx'', args = [''vitest'']\<rparr>"

definition spawn_hint :: string where
  "spawn_hint =
     ''Cannot spawn node process. Please try setting vitest.nodeEnv as {'' @ [CHR 0x22]
       @ ''PATH'' @ [CHR 0x22] @ '': '' @ [CHR 0x22] @ ''/path/to/node'' @ [CHR 0x22]
       @ ''} in your settings.''"

definition disabled_msg :: string where
  "disabled_msg =
     ''Because Vitest version < 0.8.0, run/debug/watch tests from Vitest extension disabled.''
       @ [CHR 0x0A]"

text \<open>
  Lines 58 to 69: the awaited probe with its \<^verbatim>\<open>.catch\<close>.  The handler returns nothing, so
  a rejected probe leaves \<^verbatim>\<open>vitestVersion\<close> undefined.  (\<^verbatim>\<open>getConfig().env || undefined\<close>
  maps both null and undefined to undefined, which is \<open>None\<close> here.)
\<close>

definition probeVersion ::
  "'s host_env \<Rightarrow> vitest_command option \<Rightarrow> string option \<times> 's event list" where
  "probeVersion h vitestCmd =
     (case getVitestVersion h vitestCmd (config_env h) of
        Resolved v \<Rightarrow> (Some v, [GetVitestVersion vitestCmd (config_env h)])
      | Rejected e \<Rightarrow>
          (None,
           [GetVitestVersion vitestCmd (config_env h),
            LogAppendLine (toString e),
            LogAppendLine (''process.env.PATH = '' @ template (process_env_PATH h)),
            LogAppendLine (''vitest.nodeEnv = '' @ JSON_stringify h (config_env h)),
            IsNodeAvailable (config_env h)]
           @ (if \<not> isNodeAvailable h (config_env h)
              then [LogAppendLine ''Cannot spawn node process'',
                    ShowErrorMessage (toString e @ spawn_hint)]
              else [ShowErrorMessage (toString e)])))"

text \<open>
  Lines 126 to 202.  \<^verbatim>\<open>effect(fn)\<close> runs \<^verbatim>\<open>fn\<close> once when it is registered, on the state
  the new watcher has.  The arguments of \<^verbatim>\<open>subscriptions.push\<close> are evaluated before the
  push, so the three commands are registered first.
\<close>

definition registerWatchHandler ::
  "'s host_env \<Rightarrow> vitest_command option \<Rightarrow> test_controller \<Rightarrow> file_discoverer
     \<Rightarrow> test_watcher option \<times> 's event list" where
  "registerWatchHandler h vitestCmd ctrl fileDiscoverer =
     (case vitestCmd of
        None \<Rightarrow> (None, [])
      | Some c \<Rightarrow>
          (let testWatcher = TestWatcher ctrl fileDiscoverer c in
           (Some testWatcher,
            [TestWatcherCreate ctrl fileDiscoverer c,
             NewStatusBarItem,
             RegisterEffect (StatusBarEffect testWatcher StatusBarItem),
             StatusBarCall StatusBarItem (statusBarEffect (watcher_created h)),
             RegisterCommand StartWatching (StartWatchingFn testWatcher),
             RegisterCommand StopWatching (StopWatchingFn testWatcher),
             RegisterCommand ToggleWatching (ToggleWatchingFn testWatcher),
             SubscriptionsPush
               [DisposeFn (StopWatchingFn testWatcher),
                WatcherDisposable testWatcher,
                StatusBarDisposable StatusBarItem,
                CommandRegistration StartWatching,
                CommandRegistration StopWatching,
                CommandRegistration ToggleWatching],
             CreateRunProfile ''Run Tests (Watch Mode)'' Run
               (WatchModeRunHandler testWatcher) False])))"

text \<open>Lines 204 to 221.\<close>

definition registerRunHandler :: "test_controller \<Rightarrow> test_watcher option \<Rightarrow> 's event list" where
  "registerRunHandler ctrl testWatcher =
     [CreateRunProfile ''Run Tests'' Run (BoundRunHandler ctrl testWatcher) True,
      CreateRunProfile ''Debug Tests'' Debug (BoundDebugHandler ctrl) True]"

text \<open>
  The condition of line 74.  \<^verbatim>\<open>semver.gte\<close> is called only on a version that is defined
  and not the empty string; what it throws leaves the condition without a value.
\<close>

definition runDebugWatchEnabled ::
  "'s host_env \<Rightarrow> string option \<Rightarrow> string option \<Rightarrow> thrown + bool" where
  "runDebugWatchEnabled h vitestVersion customTestCmd =
     (case vitestVersion of
        None \<Rightarrow> Inr (truthy customTestCmd)
      | Some v \<Rightarrow>
          if v = [] then Inr (truthy customTestCmd)
          else (case semver_gte h v ''0.8.0'' of
                  Inl e \<Rightarrow> Inl e
                | Inr b \<Rightarrow> Inr (b \<or> truthy customTestCmd)))"

text \<open>Lines 51 to 56: the runner's command, with its default.\<close>

definition vitestCmd :: "'s host_env \<Rightarrow> fs_path \<Rightarrow> vitest_command option" where
  "vitestCmd h folder = nullish (getVitestCommand h folder) (Some default_command)"

text \<open>Lines 76 to 87: the branch that enables run, debug and watch.\<close>

definition enableRunDebugWatch ::
  "'s host_env \<Rightarrow> vitest_command option \<Rightarrow> string option \<Rightarrow> test_controller
     \<Rightarrow> file_discoverer \<Rightarrow> 's event list" where
  "enableRunDebugWatch h vcmd customTestCmd ctrl fileDiscoverer =
     (let (testWatcher, watching) =
            registerWatchHandler h
              (nullish vcmd (Some (stringToCmd h customTestCmd))) ctrl fileDiscoverer
      in watching
         @ registerRunHandler ctrl testWatcher
         @ [RegisterCommand UpdateSnapshot (UpdateSnapshotFn ctrl),
            SubscriptionsPush [CommandRegistration UpdateSnapshot]])"

text \<open>Lines 90 to 102: the branch that disables them.\<close>

definition disableRunDebugWatch :: "'s event list" where
  "disableRunDebugWatch =
     [RegisterCommand ToggleWatching (ShowWarningFn disabled_msg),
      RegisterCommand UpdateSnapshot (ShowWarningFn disabled_msg),
      SubscriptionsPush [CommandRegistration ToggleWatching, CommandRegistration UpdateSnapshot],
      ShowWarningMessage disabled_msg]"

text \<open>Lines 105 to 107.\<close>

definition discoverVisible ::
  "'s host_env \<Rightarrow> test_controller \<Rightarrow> file_discoverer \<Rightarrow> 's event list" where
  "discoverVisible h ctrl fileDiscoverer =
     map (\<lambda>x. DiscoverTestFromDoc fileDiscoverer ctrl (editor_document x)) (visibleTextEditors h)"

text \<open>Lines 109 to 122.\<close>

definition registerListeners :: "test_controller \<Rightarrow> file_discoverer \<Rightarrow> 's event list" where
  "registerListeners ctrl fileDiscoverer =
     [OnDidOpenTextDocument (DiscoverOnOpen fileDiscoverer ctrl),
      OnDidChangeTextDocument (DiscoverOnChange fileDiscoverer ctrl),
      SubscriptionsPush
        [ControllerDisposable ctrl,
         DiscovererDisposable fileDiscoverer,
         OpenListenerRegistration (DiscoverOnOpen fileDiscoverer ctrl),
         ChangeListenerRegistration (DiscoverOnChange fileDiscoverer ctrl)]]"

text \<open>Lines 28 to 49: the controller, the discoverer and the controller's two handlers.\<close>

definition createController ::
  "'s host_env \<Rightarrow> test_controller \<Rightarrow> file_discoverer \<Rightarrow> 's event list" where
  "createController h ctrl fileDiscoverer =
     [CreateTestController (extensionId h) ''Vitest'',
      NewTestFileDiscoverer,
      SetRefreshHandler ctrl (RefreshHandler fileDiscoverer ctrl),
      SetResolveHandler ctrl (ResolveHandler fileDiscoverer ctrl)]"

text \<open>
  Lines 15 to 123.  The second guard calls \<^verbatim>\<open>isVitestEnv\<close> only when the extension is not
  enabled by its setting.  When the condition of line 74 throws, the calls made so far
  stand and nothing after line 73 runs.
\<close>

definition activate :: "'s host_env \<Rightarrow> activation \<times> 's event list" where
  "activate h =
     (case workspaceFolders h of
        None \<Rightarrow> (ReturnedEarly, [])
      | Some [] \<Rightarrow> (ReturnedEarly, [])
      | Some (folder # _) \<Rightarrow>
          if \<not> config_enable h \<and> \<not> isVitestEnv h folder
          then (ReturnedEarly, [IsVitestEnv folder])
          else
            (let ctrl = TestController (extensionId h) ''Vitest'';
                 fileDiscoverer = TestFileDiscoverer;
                 (vitestVersion, probed) = probeVersion h (vitestCmd h folder);
                 customTestCmd = config_commandLine h
             in
             (case runDebugWatchEnabled h vitestVersion customTestCmd of
                Inl e \<Rightarrow>
                  (Threw e,
                   (if config_enable h then [] else [IsVitestEnv folder])
                   @ createController h ctrl fileDiscoverer
                   @ [GetVitestCommand folder]
                   @ probed
                   @ [ConsoleDir vitestVersion])
              | Inr enabled \<Rightarrow>
                  (Completed,
                   (if config_enable h then [] else [IsVitestEnv folder])
                   @ createController h ctrl fileDiscoverer
                   @ [GetVitestCommand folder]
                   @ probed
                   @ [ConsoleDir vitestVersion]
                   @ (if enabled
                      then enableRunDebugWatch h (vitestCmd h folder) customTestCmd ctrl
                             fileDiscoverer
                      else disableRunDebugWatch)
                   @ discoverVisible h ctrl fileDiscoverer
                   @ registerListeners ctrl fileDiscoverer))))"

section \<open>The closures' bodies\<close>

text \<open>
  What each closure does when the host calls it.  A closure that reads the watcher's
  reactive state, the workspace or \<^verbatim>\<open>WEAKMAP_TEST_DATA\<close> reads them at the time of the call,
  so they are arguments here.
\<close>

definition stopWatching :: "test_watcher \<Rightarrow> 's event list" where
  "stopWatching testWatcher =
     [WatcherDispose testWatcher,
      ConfigurationUpdate ''testing'' ''automaticallyOpenPeekView'' None]"

definition startWatching :: "test_watcher \<Rightarrow> 's event list" where
  "startWatching testWatcher =
     [WatcherWatch testWatcher NotAwaited,
      ConfigurationUpdate ''testing'' ''automaticallyOpenPeekView'' (Some ''never'')]"

fun call_closure :: "closure \<Rightarrow> 's watcher_state \<Rightarrow> test_item option \<Rightarrow> 's event list" where
  "call_closure (StartWatchingFn testWatcher) w test = startWatching testWatcher"
| "call_closure (StopWatchingFn testWatcher) w test = stopWatching testWatcher"
| "call_closure (ToggleWatchingFn testWatcher) w test =
     (if isWatching w then stopWatching testWatcher else startWatching testWatcher)"
| "call_closure (UpdateSnapshotFn ctrl) w test = [UpdateSnapshotCall ctrl test]"
| "call_closure (ShowWarningFn msg) w test = [ShowWarningMessage msg]"

fun call_effect :: "effect_fn \<Rightarrow> 's watcher_state \<Rightarrow> 's event list" where
  "call_effect (StatusBarEffect testWatcher statusBarItem) w =
     [StatusBarCall statusBarItem (statusBarEffect w)]"

text \<open>
  Lines 187 to 199.  \<open>watched\<close> is how the promise of \<^verbatim>\<open>testWatcher.watch()\<close> settles:
  the handler awaits it, so \<^verbatim>\<open>runTests\<close> is called only once it has resolved, and a
  rejection is the handler's own.  The result is how the handler's promise settles, and
  the calls it made.
\<close>

definition watchModeRunHandler ::
  "test_watcher \<Rightarrow> fs_path list option \<Rightarrow> unit settled \<Rightarrow> test_run_request
     \<Rightarrow> cancellation_token \<Rightarrow> unit settled \<times> 's event list" where
  "watchModeRunHandler testWatcher folders watched request cancellation =
     (if folders = None \<or> folders = Some [] then (Resolved (), [])
      else
        (case watched of
           Rejected e \<Rightarrow> (Rejected e, [WatcherWatch testWatcher Awaited])
         | Resolved u \<Rightarrow>
             (Resolved (),
              [WatcherWatch testWatcher Awaited,
               WatcherRunTests testWatcher (request_include request)])))"

text \<open>
  The calls a run profile's handler makes for a request: the handler above, or one of the
  two bound handlers of \<^verbatim>\<open>./runHandler\<close>, called with the bound arguments first.
\<close>

fun call_run_handler ::
  "run_handler \<Rightarrow> fs_path list option \<Rightarrow> unit settled \<Rightarrow> test_run_request
     \<Rightarrow> cancellation_token \<Rightarrow> 's event list" where
  "call_run_handler (WatchModeRunHandler testWatcher) folders watched request cancellation =
     snd (watchModeRunHandler testWatcher folders watched request cancellation)"
| "call_run_handler (BoundRunHandler ctrl testWatcher) folders watched request cancellation =
     [RunHandlerCall ctrl testWatcher request cancellation]"
| "call_run_handler (BoundDebugHandler ctrl) folders watched request cancellation =
     [DebugHandlerCall ctrl request cancellation]"

text \<open>
  Lines 32 to 49.  \<open>watched\<close> is the list of disposables that
  \<^verbatim>\<open>watchAllTestFilesInWorkspace\<close> resolves to.
\<close>

fun call_refresh_handler :: "refresh_handler \<Rightarrow> 's event list" where
  "call_refresh_handler (RefreshHandler fileDiscoverer ctrl) =
     [DiscoverAllTestFilesInWorkspace fileDiscoverer ctrl]"

fun call_resolve_handler ::
  "resolve_handler \<Rightarrow> (test_item \<Rightarrow> test_data option) \<Rightarrow> disposable list
     \<Rightarrow> test_item option \<Rightarrow> 's event list" where
  "call_resolve_handler (ResolveHandler fileDiscoverer ctrl) WEAKMAP_TEST_DATA watched item =
     (case item of
        None \<Rightarrow> [WatchAllTestFilesInWorkspace fileDiscoverer ctrl, SubscriptionsPush watched]
      | Some i \<Rightarrow>
          (case WEAKMAP_TEST_DATA i of
             Some (TestFile f) \<Rightarrow> [UpdateFromDisk (TestFile f) ctrl]
           | _ \<Rightarrow> []))"

fun call_open_listener :: "open_listener \<Rightarrow> text_document \<Rightarrow> 's event list" where
  "call_open_listener (DiscoverOnOpen fileDiscoverer ctrl) e =
     [DiscoverTestFromDoc fileDiscoverer ctrl e]"

fun call_change_listener ::
  "change_listener \<Rightarrow> text_document_change_event \<Rightarrow> 's event list" where
  "call_change_listener (DiscoverOnChange fileDiscoverer ctrl) e =
     [DiscoverTestFromDoc fileDiscoverer ctrl (event_document e)]"

section \<open>What the host holds after activation\<close>

text \<open>
  The registrations of a trace, read off its host calls in order: the commands, the run
  profiles, the document listeners and the controller's two handlers.
\<close>

definition registered_commands :: "'s event list \<Rightarrow> (command \<times> closure) list" where
  "registered_commands tr =
     concat (map (\<lambda>ev. case ev of RegisterCommand c f \<Rightarrow> [(c, f)] | _ \<Rightarrow> []) tr)"

definition run_profiles ::
  "'s event list \<Rightarrow> (string \<times> test_run_profile_kind \<times> run_handler \<times> bool) list" where
  "run_profiles tr =
     concat (map (\<lambda>ev. case ev of CreateRunProfile l k f d \<Rightarrow> [(l, k, f, d)] | _ \<Rightarrow> []) tr)"

definition open_listeners :: "'s event list \<Rightarrow> open_listener list" where
  "open_listeners tr =
     concat (map (\<lambda>ev. case ev of OnDidOpenTextDocument l \<Rightarrow> [l] | _ \<Rightarrow> []) tr)"

definition change_listeners :: "'s event list \<Rightarrow> change_listener list" where
  "change_listeners tr =
     concat (map (\<lambda>ev. case ev of OnDidChangeTextDocument l \<Rightarrow> [l] | _ \<Rightarrow> []) tr)"

definition discover_calls :: "'s event list \<Rightarrow> 's event list" where
  "discover_calls tr =
     concat (map (\<lambda>ev. case ev of DiscoverTestFromDoc fd c d \<Rightarrow> [ev] | _ \<Rightarrow> []) tr)"

definition refresh_handlers :: "'s event list \<Rightarrow> refresh_handler list" where
  "refresh_handlers tr =
     concat (map (\<lambda>ev. case ev of SetRefreshHandler c f \<Rightarrow> [f] | _ \<Rightarrow> []) tr)"

definition resolve_handlers :: "'s event list \<Rightarrow> resolve_handler list" where
  "resolve_handlers tr =
     concat (map (\<lambda>ev. case ev of SetResolveHandler c f \<Rightarrow> [f] | _ \<Rightarrow> []) tr)"

definition created_watchers :: "'s event list \<Rightarrow> test_watcher list" where
  "created_watchers tr =
     concat (map (\<lambda>ev. case ev of TestWatcherCreate c fd vc \<Rightarrow> [TestWatcher c fd vc] | _ \<Rightarrow> []) tr)"

text \<open>The host's dispatch: an event reaches every listener registered for it.\<close>

definition onDidOpen :: "'s event list \<Rightarrow> text_document \<Rightarrow> 's event list" where
  "onDidOpen tr e = concat (map (\<lambda>l. call_open_listener l e) (open_listeners tr))"

definition onDidChange :: "'s event list \<Rightarrow> text_document_change_event \<Rightarrow> 's event list" where
  "onDidChange tr e = concat (map (\<lambda>l. call_change_listener l e) (change_listeners tr))"

section \<open>What can run after activation\<close>

text \<open>
  After \<^verbatim>\<open>activate\<close> has returned, code of the extension runs only when the host calls one
  of the closures or disposables it was handed.  A callback is such a value together with
  the way it was handed over, which fixes what makes the host call it: a command when the
  command is invoked, a run profile's handler for a run request on that profile, the
  controller's handlers for a refresh or a resolve request, a document listener for its
  editor event, the effect when the reactive state it read changes, and a member of
  \<^verbatim>\<open>context.subscriptions\<close> when the subscriptions are disposed at deactivation.
\<close>

datatype callback =
    OnCommand command closure
  | OnRunRequest string run_handler
  | OnRefresh refresh_handler
  | OnResolve resolve_handler
  | OnOpen open_listener
  | OnChange change_listener
  | OnStateChange effect_fn
  | OnDispose disposable




text \<open>The callbacks that the host calls of a trace hand over, in order.\<close>

definition callbacks :: "'s event list \<Rightarrow> callback list" where
  "callbacks tr =
     concat (map (\<lambda>ev. case ev of
         RegisterCommand c f \<Rightarrow> [OnCommand c f]
       | CreateRunProfile l k f d \<Rightarrow> [OnRunRequest l f]
       | SetRefreshHandler c f \<Rightarrow> [OnRefresh f]
       | SetResolveHandler c f \<Rightarrow> [OnResolve f]
       | OnDidOpenTextDocument l \<Rightarrow> [OnOpen l]
       | OnDidChangeTextDocument l \<Rightarrow> [OnChange l]
       | RegisterEffect f \<Rightarrow> [OnStateChange f]
       | SubscriptionsPush ds \<Rightarrow> map OnDispose ds
       | _ \<Rightarrow> []) tr)"




section \<open>Names for what activation creates\<close>

text \<open>
  The controller of line 28; the runner's command that lines 51 to 56 settle on; the
  watcher that \<^verbatim>\<open>TestWatcher.create\<close> builds from them; and whether the probe of line 58
  answered a version that passes the test of line 74.
\<close>

definition controller :: "'s host_env \<Rightarrow> test_controller" where
  "controller h = TestController (extensionId h) ''Vitest''"

definition runnerCommand :: "'s host_env \<Rightarrow> fs_path \<Rightarrow> vitest_command" where
  "runnerCommand h folder =
     (case getVitestCommand h folder of None \<Rightarrow> default_command | Some c \<Rightarrow> c)"

definition watcher :: "'s host_env \<Rightarrow> fs_path \<Rightarrow> test_watcher" where
  "watcher h folder = TestWatcher (controller h) TestFileDiscoverer (runnerCommand h folder)"

definition probedVersionAtLeast :: "'s host_env \<Rightarrow> fs_path \<Rightarrow> bool" where
  "probedVersionAtLeast h folder =
     (case getVitestVersion h (vitestCmd h folder) (config_env h) of
        Resolved v \<Rightarrow> v \<noteq> [] \<and> semver_gte h v ''0.8.0'' = Inr True
      | Rejected e \<Rightarrow> False)"

text \<open>The calls of an activation that passes both guards, up to line 71.\<close>

definition beforeComparison :: "'s host_env \<Rightarrow> fs_path \<Rightarrow> 's event list" where
  "beforeComparison h folder =
     (if config_enable h then [] else [IsVitestEnv folder])
     @ createController h (controller h) TestFileDiscoverer
     @ [GetVitestCommand folder]
     @ snd (probeVersion h (vitestCmd h folder))
     @ [ConsoleDir (fst (probeVersion h (vitestCmd h folder)))]"

section \<open>Sample surroundings\<close>

text \<open>
  A workspace with one folder and one visible editor, the extension enabled, no local
  runner binary, a probe that answers version 0.12.6, and no custom command line.  The
  version comparison throws on \<^verbatim>\<open>0.8\<close>, which is not a version of three numbers.
\<close>

definition sample_env :: "nat host_env" where
  "sample_env =
     \<lparr>workspaceFolders = Some [''/work/app''],
      extensionId = ''vitest.explorer'',
      config_enable = True,
      config_env = None,
      config_commandLine = None,
      isVitestEnv = (\<lambda>p. False),
      getVitestCommand = (\<lambda>p. None),
      getVitestVersion = (\<lambda>c e. Resolved ''0.12.6''),
      isNodeAvailable = (\<lambda>e. False),
      semver_gte =
        (\<lambda>a b. if a = ''0.8'' then Inl (Thrown ''TypeError: Invalid Version: 0.8'')
               else Inr (a = ''0.12.6'')),
      stringToCmd = (\<lambda>s. \<lparr>cmd = ''yarn'', args = [''test'']\<rparr>),
      JSON_stringify = (\<lambda>e. ''null''),
      process_env_PATH = Some ''/usr/bin'',
      visibleTextEditors = [TextEditor (TextDocument ''/work/app/a.test.ts'')],
      watcher_created = \<lparr>isRunning = False, isWatching = False, testStatus = 0\<rparr>\<rparr>"

definition sample_ctrl :: test_controller where
  "sample_ctrl = TestController ''vitest.explorer'' ''Vitest''"

definition sample_watcher :: test_watcher where
  "sample_watcher = TestWatcher sample_ctrl TestFileDiscoverer default_command"

text \<open>The same workspace with a runner older than 0.8.0.\<close>

definition old_runner_env :: "nat host_env" where
  "old_runner_env = sample_env\<lparr>getVitestVersion := (\<lambda>c e. Resolved ''0.7.0'')\<rparr>"

text \<open>The same workspace where the probe cannot start the runner and node cannot be spawned.\<close>

definition failing_probe_env :: "nat host_env" where
  "failing_probe_env =
     sample_env\<lparr>getVitestVersion := (\<lambda>c e. Rejected (Thrown ''Error: spawn npx ENOENT''))\<rparr>"

text \<open>No workspace folder is open, and a custom command line is configured.\<close>

definition no_folder_env :: "nat host_env" where
  "no_folder_env =
     sample_env\<lparr>workspaceFolders := None, config_commandLine := Some ''yarn test''\<rparr>"

text \<open>The extension is not enabled and the folder is not a Vitest environment.\<close>

definition not_vitest_env :: "nat host_env" where
  "not_vitest_env = sample_env\<lparr>config_enable := False\<rparr>"

text \<open>An old runner, with a custom command line configured.\<close>

definition custom_command_env :: "nat host_env" where
  "custom_command_env = old_runner_env\<lparr>config_commandLine := Some ''yarn test''\<rparr>"

text \<open>A runner whose answer is not a version, with a custom command line configured.\<close>

definition unparsable_version_env :: "nat host_env" where
  "unparsable_version_env =
     sample_env\<lparr>getVitestVersion := (\<lambda>c e. Resolved ''0.8''),
       config_commandLine := Some ''yarn test''\<rparr>"


section \<open>The shape of an activation's trace\<close>

lemma vitestCmd_Some: "vitestCmd h folder = Some (runnerCommand h folder)"
  by (simp add: vitestCmd_def runnerCommand_def nullish_def split: option.splits)

lemma nullish_Some: "nullish (Some x) y = Some x"
  by (simp add: nullish_def)

lemma registered_commands_append:
  "registered_commands (xs @ ys) = registered_commands xs @ registered_commands ys"
  by (simp add: registered_commands_def)

lemma run_profiles_append: "run_profiles (xs @ ys) = run_profiles xs @ run_profiles ys"
  by (simp add: run_profiles_def)

lemma open_listeners_append: "open_listeners (xs @ ys) = open_listeners xs @ open_listeners ys"
  by (simp add: open_listeners_def)

lemma change_listeners_append:
  "change_listeners (xs @ ys) = change_listeners xs @ change_listeners ys"
  by (simp add: change_listeners_def)

lemma discover_calls_append: "discover_calls (xs @ ys) = discover_calls xs @ discover_calls ys"
  by (simp add: discover_calls_def)

lemma refresh_handlers_append:
  "refresh_handlers (xs @ ys) = refresh_handlers xs @ refresh_handlers ys"
  by (simp add: refresh_handlers_def)

lemma resolve_handlers_append:
  "resolve_handlers (xs @ ys) = resolve_handlers xs @ resolve_handlers ys"
  by (simp add: resolve_handlers_def)

lemma created_watchers_append:
  "created_watchers (xs @ ys) = created_watchers xs @ created_watchers ys"
  by (simp add: created_watchers_def)

lemma callbacks_append: "callbacks (xs @ ys) = callbacks xs @ callbacks ys"
  by (simp add: callbacks_def)

lemmas extract_append = registered_commands_append run_profiles_append open_listeners_append
  change_listeners_append discover_calls_append refresh_handlers_append resolve_handlers_append
  created_watchers_append callbacks_append

lemmas extract_defs = registered_commands_def run_profiles_def open_listeners_def
  change_listeners_def discover_calls_def refresh_handlers_def resolve_handlers_def
  created_watchers_def callbacks_def

lemma extract_Nil:
  "registered_commands [] = []" "run_profiles [] = []" "open_listeners [] = []"
  "change_listeners [] = []" "discover_calls [] = []" "refresh_handlers [] = []"
  "resolve_handlers [] = []" "created_watchers [] = []" "callbacks [] = []"
  by (simp_all add: extract_defs)

lemma extract_Cons:
  "registered_commands (ev # tr) =
     (case ev of RegisterCommand c f \<Rightarrow> [(c, f)] | _ \<Rightarrow> []) @ registered_commands tr"
  "run_profiles (ev # tr) =
     (case ev of CreateRunProfile l k f d \<Rightarrow> [(l, k, f, d)] | _ \<Rightarrow> []) @ run_profiles tr"
  "open_listeners (ev # tr) =
     (case ev of OnDidOpenTextDocument l \<Rightarrow> [l] | _ \<Rightarrow> []) @ open_listeners tr"
  "change_listeners (ev # tr) =
     (case ev of OnDidChangeTextDocument l \<Rightarrow> [l] | _ \<Rightarrow> []) @ change_listeners tr"
  "discover_calls (ev # tr) =
     (case ev of DiscoverTestFromDoc fd c d \<Rightarrow> [ev] | _ \<Rightarrow> []) @ discover_calls tr"
  "refresh_handlers (ev # tr) =
     (case ev of SetRefreshHandler c f \<Rightarrow> [f] | _ \<Rightarrow> []) @ refresh_handlers tr"
  "resolve_handlers (ev # tr) =
     (case ev of SetResolveHandler c f \<Rightarrow> [f] | _ \<Rightarrow> []) @ resolve_handlers tr"
  "created_watchers (ev # tr) =
     (case ev of TestWatcherCreate c fd vc \<Rightarrow> [TestWatcher c fd vc] | _ \<Rightarrow> [])
       @ created_watchers tr"
  "callbacks (ev # tr) =
     (case ev of
        RegisterCommand c f \<Rightarrow> [OnCommand c f]
      | CreateRunProfile l k f d \<Rightarrow> [OnRunRequest l f]
      | SetRefreshHandler c f \<Rightarrow> [OnRefresh f]
      | SetResolveHandler c f \<Rightarrow> [OnResolve f]
      | OnDidOpenTextDocument l \<Rightarrow> [OnOpen l]
      | OnDidChangeTextDocument l \<Rightarrow> [OnChange l]
      | RegisterEffect f \<Rightarrow> [OnStateChange f]
      | SubscriptionsPush ds \<Rightarrow> map OnDispose ds
      | _ \<Rightarrow> []) @ callbacks tr"
  by (simp_all add: extract_defs)

lemmas extract_simps = extract_Nil extract_Cons extract_append

lemma probeVersion_fst:
  "fst (probeVersion h c) =
     (case getVitestVersion h c (config_env h) of Resolved v \<Rightarrow> Some v | Rejected e \<Rightarrow> None)"
  by (simp add: probeVersion_def split: settled.splits)

lemma probeVersion_extract:
  "registered_commands (snd (probeVersion h c)) = []"
  "run_profiles (snd (probeVersion h c)) = []"
  "open_listeners (snd (probeVersion h c)) = []"
  "change_listeners (snd (probeVersion h c)) = []"
  "discover_calls (snd (probeVersion h c)) = []"
  "refresh_handlers (snd (probeVersion h c)) = []"
  "resolve_handlers (snd (probeVersion h c)) = []"
  "created_watchers (snd (probeVersion h c)) = []"
  "callbacks (snd (probeVersion h c)) = []"
  by (simp_all add: probeVersion_def extract_simps split: settled.splits)

text \<open>When the condition of line 74 has a value, it is the one the specification names.\<close>

lemma comparison_value:
  assumes "runDebugWatchEnabled h (fst (probeVersion h (vitestCmd h folder))) cl = Inr b"
  shows "b \<longleftrightarrow> probedVersionAtLeast h folder \<or> truthy cl"
  using assms
  by (auto simp: runDebugWatchEnabled_def probedVersionAtLeast_def probeVersion_fst
      split: settled.splits if_splits sum.splits)

lemma comparison_at_least:
  assumes "probedVersionAtLeast h folder"
  shows "runDebugWatchEnabled h (fst (probeVersion h (vitestCmd h folder))) cl = Inr True"
  using assms
  by (auto simp: runDebugWatchEnabled_def probedVersionAtLeast_def probeVersion_fst
      split: settled.splits)

lemma comparison_after_rejection:
  assumes "getVitestVersion h (vitestCmd h folder) (config_env h) = Rejected e"
  shows "runDebugWatchEnabled h (fst (probeVersion h (vitestCmd h folder))) cl = Inr (truthy cl)"
  using assms by (simp add: runDebugWatchEnabled_def probeVersion_fst)

lemma enableRunDebugWatch_events:
  "enableRunDebugWatch h (vitestCmd h folder) cl (controller h) TestFileDiscoverer =
     [TestWatcherCreate (controller h) TestFileDiscoverer (runnerCommand h folder),
      NewStatusBarItem,
      RegisterEffect (StatusBarEffect (watcher h folder) StatusBarItem),
      StatusBarCall StatusBarItem (statusBarEffect (watcher_created h)),
      RegisterCommand StartWatching (StartWatchingFn (watcher h folder)),
      RegisterCommand StopWatching (StopWatchingFn (watcher h folder)),
      RegisterCommand ToggleWatching (ToggleWatchingFn (watcher h folder)),
      SubscriptionsPush
        [DisposeFn (StopWatchingFn (watcher h folder)),
         WatcherDisposable (watcher h folder),
         StatusBarDisposable StatusBarItem,
         CommandRegistration StartWatching,
         CommandRegistration StopWatching,
         CommandRegistration ToggleWatching],
      CreateRunProfile ''Run Tests (Watch Mode)'' Run (WatchModeRunHandler (watcher h folder)) False,
      CreateRunProfile ''Run Tests'' Run (BoundRunHandler (controller h) (Some (watcher h folder))) True,
      CreateRunProfile ''Debug Tests'' Debug (BoundDebugHandler (controller h)) True,
      RegisterCommand UpdateSnapshot (UpdateSnapshotFn (controller h)),
      SubscriptionsPush [CommandRegistration UpdateSnapshot]]"
  by (simp add: enableRunDebugWatch_def vitestCmd_Some nullish_Some registerWatchHandler_def
      registerRunHandler_def watcher_def Let_def)

lemma activate_passed:
  assumes "workspaceFolders h = Some (folder # rest)" and "config_enable h \<or> isVitestEnv h folder"
  shows "activate h =
     (case runDebugWatchEnabled h (fst (probeVersion h (vitestCmd h folder)))
             (config_commandLine h) of
        Inl e \<Rightarrow> (Threw e, beforeComparison h folder)
      | Inr b \<Rightarrow>
          (Completed,
           beforeComparison h folder
           @ (if b
              then enableRunDebugWatch h (vitestCmd h folder) (config_commandLine h)
                     (controller h) TestFileDiscoverer
              else disableRunDebugWatch)
           @ discoverVisible h (controller h) TestFileDiscoverer
           @ registerListeners (controller h) TestFileDiscoverer))"
proof -
  obtain v probed where p: "probeVersion h (vitestCmd h folder) = (v, probed)"
    by (cases "probeVersion h (vitestCmd h folder)")
  show ?thesis
  proof (cases "runDebugWatchEnabled h v (config_commandLine h)")
    case (Inl e)
    then show ?thesis
      using assms p by (auto simp: activate_def controller_def beforeComparison_def Let_def)
  next
    case (Inr b)
    then show ?thesis
      using assms p by (auto simp: activate_def controller_def beforeComparison_def Let_def)
  qed
qed

lemma activate_cases:
  obtains (no_folder) "workspaceFolders h = None \<or> workspaceFolders h = Some []"
      "activate h = (ReturnedEarly, [])"
  | (not_vitest) folder rest where "workspaceFolders h = Some (folder # rest)"
      "\<not> config_enable h" "\<not> isVitestEnv h folder"
      "activate h = (ReturnedEarly, [IsVitestEnv folder])"
  | (threw) folder rest e where "workspaceFolders h = Some (folder # rest)"
      "config_enable h \<or> isVitestEnv h folder"
      "activate h = (Threw e, beforeComparison h folder)"
  | (completed) folder rest where "workspaceFolders h = Some (folder # rest)"
      "config_enable h \<or> isVitestEnv h folder"
      "activate h =
         (Completed,
          beforeComparison h folder
          @ (if probedVersionAtLeast h folder \<or> truthy (config_commandLine h)
             then enableRunDebugWatch h (vitestCmd h folder) (config_commandLine h)
                    (controller h) TestFileDiscoverer
             else disableRunDebugWatch)
          @ discoverVisible h (controller h) TestFileDiscoverer
          @ registerListeners (controller h) TestFileDiscoverer)"
proof (cases "workspaceFolders h")
  case None
  then show ?thesis using no_folder by (simp add: activate_def)
next
  case (Some fs)
  show ?thesis
  proof (cases fs)
    case Nil
    then show ?thesis using Some no_folder by (simp add: activate_def)
  next
    case (Cons folder rest)
    show ?thesis
    proof (cases "config_enable h \<or> isVitestEnv h folder")
      case False
      then show ?thesis using Some Cons not_vitest [of folder rest] by (simp add: activate_def)
    next
      case True
      have f: "workspaceFolders h = Some (folder # rest)"
        using Some Cons by simp
      show ?thesis
      proof (cases "runDebugWatchEnabled h (fst (probeVersion h (vitestCmd h folder)))
          (config_commandLine h)")
        case (Inl e)
        then show ?thesis
          using threw [OF f True, of e] activate_passed [OF f True] by simp
      next
        case (Inr b)
        then show ?thesis
          using completed [OF f True] activate_passed [OF f True] comparison_value [OF Inr]
          by simp
      qed
    qed
  qed
qed

lemma activate_completed:
  assumes "workspaceFolders h = Some (folder # rest)" and "fst (activate h) = Completed"
  shows "activate h =
     (Completed,
      beforeComparison h folder
      @ (if probedVersionAtLeast h folder \<or> truthy (config_commandLine h)
         then enableRunDebugWatch h (vitestCmd h folder) (config_commandLine h)
                (controller h) TestFileDiscoverer
         else disableRunDebugWatch)
      @ discoverVisible h (controller h) TestFileDiscoverer
      @ registerListeners (controller h) TestFileDiscoverer)"
  using assms by (cases h rule: activate_cases) auto

lemma completed_has_folder:
  assumes "fst (activate h) = Completed"
  obtains folder rest where "workspaceFolders h = Some (folder # rest)"
  using assms by (cases h rule: activate_cases) auto

section \<open>What each block of activation registers\<close>

lemma extract_createController:
  "registered_commands (createController h c fd) = []"
  "run_profiles (createController h c fd) = []"
  "open_listeners (createController h c fd) = []"
  "change_listeners (createController h c fd) = []"
  "discover_calls (createController h c fd) = []"
  "refresh_handlers (createController h c fd) = [RefreshHandler fd c]"
  "resolve_handlers (createController h c fd) = [ResolveHandler fd c]"
  "created_watchers (createController h c fd) = []"
  "callbacks (createController h c fd) = [OnRefresh (RefreshHandler fd c), OnResolve (ResolveHandler fd c)]"
  by (simp_all add: createController_def extract_simps)

lemma extract_beforeComparison:
  "registered_commands (beforeComparison h folder) = []"
  "run_profiles (beforeComparison h folder) = []"
  "open_listeners (beforeComparison h folder) = []"
  "change_listeners (beforeComparison h folder) = []"
  "discover_calls (beforeComparison h folder) = []"
  "refresh_handlers (beforeComparison h folder) =
     [RefreshHandler TestFileDiscoverer (controller h)]"
  "resolve_handlers (beforeComparison h folder) =
     [ResolveHandler TestFileDiscoverer (controller h)]"
  "created_watchers (beforeComparison h folder) = []"
  "callbacks (beforeComparison h folder) =
     [OnRefresh (RefreshHandler TestFileDiscoverer (controller h)),
      OnResolve (ResolveHandler TestFileDiscoverer (controller h))]"
  by (simp_all add: beforeComparison_def extract_simps extract_createController
      probeVersion_extract)

lemma extract_map_discover:
  "registered_commands (map (\<lambda>x. DiscoverTestFromDoc fd c (g x)) xs) = []"
  "run_profiles (map (\<lambda>x. DiscoverTestFromDoc fd c (g x)) xs) = []"
  "open_listeners (map (\<lambda>x. DiscoverTestFromDoc fd c (g x)) xs) = []"
  "change_listeners (map (\<lambda>x. DiscoverTestFromDoc fd c (g x)) xs) = []"
  "discover_calls (map (\<lambda>x. DiscoverTestFromDoc fd c (g x)) xs) =
     map (\<lambda>x. DiscoverTestFromDoc fd c (g x)) xs"
  "refresh_handlers (map (\<lambda>x. DiscoverTestFromDoc fd c (g x)) xs) = []"
  "resolve_handlers (map (\<lambda>x. DiscoverTestFromDoc fd c (g x)) xs) = []"
  "created_watchers (map (\<lambda>x. DiscoverTestFromDoc fd c (g x)) xs) = []"
  "callbacks (map (\<lambda>x. DiscoverTestFromDoc fd c (g x)) xs) = []"
  by (induction xs) (simp_all add: extract_simps)

lemma extract_discoverVisible:
  "registered_commands (discoverVisible h c fd) = []"
  "run_profiles (discoverVisible h c fd) = []"
  "open_listeners (discoverVisible h c fd) = []"
  "change_listeners (discoverVisible h c fd) = []"
  "discover_calls (discoverVisible h c fd) = discoverVisible h c fd"
  "refresh_handlers (discoverVisible h c fd) = []"
  "resolve_handlers (discoverVisible h c fd) = []"
  "created_watchers (discoverVisible h c fd) = []"
  "callbacks (discoverVisible h c fd) = []"
  by (simp_all add: discoverVisible_def extract_map_discover)

lemma extract_registerListeners:
  "registered_commands (registerListeners c fd) = []"
  "run_profiles (registerListeners c fd) = []"
  "open_listeners (registerListeners c fd) = [DiscoverOnOpen fd c]"
  "change_listeners (registerListeners c fd) = [DiscoverOnChange fd c]"
  "discover_calls (registerListeners c fd) = []"
  "refresh_handlers (registerListeners c fd) = []"
  "resolve_handlers (registerListeners c fd) = []"
  "created_watchers (registerListeners c fd) = []"
  "callbacks (registerListeners c fd) =
     [OnOpen (DiscoverOnOpen fd c),
      OnChange (DiscoverOnChange fd c),
      OnDispose (ControllerDisposable c),
      OnDispose (DiscovererDisposable fd),
      OnDispose (OpenListenerRegistration (DiscoverOnOpen fd c)),
      OnDispose (ChangeListenerRegistration (DiscoverOnChange fd c))]"
  by (simp_all add: registerListeners_def extract_simps)

lemma extract_disableRunDebugWatch:
  "registered_commands disableRunDebugWatch =
     [(ToggleWatching, ShowWarningFn disabled_msg), (UpdateSnapshot, ShowWarningFn disabled_msg)]"
  "run_profiles disableRunDebugWatch = []"
  "open_listeners disableRunDebugWatch = []"
  "change_listeners disableRunDebugWatch = []"
  "discover_calls disableRunDebugWatch = []"
  "refresh_handlers disableRunDebugWatch = []"
  "resolve_handlers disableRunDebugWatch = []"
  "created_watchers disableRunDebugWatch = []"
  "callbacks disableRunDebugWatch =
     [OnCommand ToggleWatching (ShowWarningFn disabled_msg),
      OnCommand UpdateSnapshot (ShowWarningFn disabled_msg),
      OnDispose (CommandRegistration ToggleWatching),
      OnDispose (CommandRegistration UpdateSnapshot)]"
  by (simp_all add: disableRunDebugWatch_def extract_simps)

lemma extract_enableRunDebugWatch:
  "registered_commands
     (enableRunDebugWatch h (vitestCmd h folder) cl (controller h) TestFileDiscoverer) =
     [(StartWatching, StartWatchingFn (watcher h folder)),
      (StopWatching, StopWatchingFn (watcher h folder)),
      (ToggleWatching, ToggleWatchingFn (watcher h folder)),
      (UpdateSnapshot, UpdateSnapshotFn (controller h))]"
  "run_profiles
     (enableRunDebugWatch h (vitestCmd h folder) cl (controller h) TestFileDiscoverer) =
     [(''Run Tests (Watch Mode)'', Run, WatchModeRunHandler (watcher h folder), False),
      (''Run Tests'', Run, BoundRunHandler (controller h) (Some (watcher h folder)), True),
      (''Debug Tests'', Debug, BoundDebugHandler (controller h), True)]"
  "open_listeners
     (enableRunDebugWatch h (vitestCmd h folder) cl (controller h) TestFileDiscoverer) = []"
  "change_listeners
     (enableRunDebugWatch h (vitestCmd h folder) cl (controller h) TestFileDiscoverer) = []"
  "discover_calls
     (enableRunDebugWatch h (vitestCmd h folder) cl (controller h) TestFileDiscoverer) = []"
  "refresh_handlers
     (enableRunDebugWatch h (vitestCmd h folder) cl (controller h) TestFileDiscoverer) = []"
  "resolve_handlers
     (enableRunDebugWatch h (vitestCmd h folder) cl (controller h) TestFileDiscoverer) = []"
  "created_watchers
     (enableRunDebugWatch h (vitestCmd h folder) cl (controller h) TestFileDiscoverer) =
     [watcher h folder]"
  "callbacks
     (enableRunDebugWatch h (vitestCmd h folder) cl (controller h) TestFileDiscoverer) =
     [OnStateChange (StatusBarEffect (watcher h folder) StatusBarItem),
      OnCommand StartWatching (StartWatchingFn (watcher h folder)),
      OnCommand StopWatching (StopWatchingFn (watcher h folder)),
      OnCommand ToggleWatching (ToggleWatchingFn (watcher h folder)),
      OnDispose (DisposeFn (StopWatchingFn (watcher h folder))),
      OnDispose (WatcherDisposable (watcher h folder)),
      OnDispose (StatusBarDisposable StatusBarItem),
      OnDispose (CommandRegistration StartWatching),
      OnDispose (CommandRegistration StopWatching),
      OnDispose (CommandRegistration ToggleWatching),
      OnRunRequest ''Run Tests (Watch Mode)'' (WatchModeRunHandler (watcher h folder)),
      OnRunRequest ''Run Tests'' (BoundRunHandler (controller h) (Some (watcher h folder))),
      OnRunRequest ''Debug Tests'' (BoundDebugHandler (controller h)),
      OnCommand UpdateSnapshot (UpdateSnapshotFn (controller h)),
      OnDispose (CommandRegistration UpdateSnapshot)]"
  by (simp_all add: enableRunDebugWatch_events extract_simps watcher_def)

lemmas extract_blocks = extract_beforeComparison extract_discoverVisible
  extract_registerListeners extract_disableRunDebugWatch extract_enableRunDebugWatch

lemma extract_completed:
  assumes "workspaceFolders h = Some (folder # rest)" and "fst (activate h) = Completed"
  shows "registered_commands (snd (activate h)) =
      (if probedVersionAtLeast h folder \<or> truthy (config_commandLine h)
       then [(StartWatching, StartWatchingFn (watcher h folder)),
             (StopWatching, StopWatchingFn (watcher h folder)),
             (ToggleWatching, ToggleWatchingFn (watcher h folder)),
             (UpdateSnapshot, UpdateSnapshotFn (controller h))]
       else [(ToggleWatching, ShowWarningFn disabled_msg),
             (UpdateSnapshot, ShowWarningFn disabled_msg)])"
    and "run_profiles (snd (activate h)) =
      (if probedVersionAtLeast h folder \<or> truthy (config_commandLine h)
       then [(''Run Tests (Watch Mode)'', Run, WatchModeRunHandler (watcher h folder), False),
             (''Run Tests'', Run, BoundRunHandler (controller h) (Some (watcher h folder)), True),
             (''Debug Tests'', Debug, BoundDebugHandler (controller h), True)]
       else [])"
    and "open_listeners (snd (activate h)) = [DiscoverOnOpen TestFileDiscoverer (controller h)]"
    and "change_listeners (snd (activate h)) = [DiscoverOnChange TestFileDiscoverer (controller h)]"
    and "discover_calls (snd (activate h)) = discoverVisible h (controller h) TestFileDiscoverer"
    and "refresh_handlers (snd (activate h)) = [RefreshHandler TestFileDiscoverer (controller h)]"
    and "resolve_handlers (snd (activate h)) = [ResolveHandler TestFileDiscoverer (controller h)]"
    and "created_watchers (snd (activate h)) =
      (if probedVersionAtLeast h folder \<or> truthy (config_commandLine h)
       then [watcher h folder] else [])"
  using activate_completed [OF assms] by (simp_all add: extract_append extract_blocks)

lemma extract_not_completed:
  assumes "fst (activate h) \<noteq> Completed"
  shows "registered_commands (snd (activate h)) = []"
    and "run_profiles (snd (activate h)) = []"
    and "open_listeners (snd (activate h)) = []"
    and "change_listeners (snd (activate h)) = []"
    and "discover_calls (snd (activate h)) = []"
    and "created_watchers (snd (activate h)) = []"
  using assms by (cases h rule: activate_cases; simp add: extract_simps extract_blocks)+

lemma run_profiles_cases:
  assumes "p \<in> set (run_profiles (snd (activate h)))"
  obtains folder rest where "workspaceFolders h = Some (folder # rest)"
    and "fst (activate h) = Completed"
    and "probedVersionAtLeast h folder \<or> truthy (config_commandLine h)"
    and "p = (''Run Tests (Watch Mode)'', Run, WatchModeRunHandler (watcher h folder), False)
       \<or> p = (''Run Tests'', Run, BoundRunHandler (controller h) (Some (watcher h folder)), True)
       \<or> p = (''Debug Tests'', Debug, BoundDebugHandler (controller h), True)"
proof (cases "fst (activate h) = Completed")
  case False
  then show ?thesis using assms extract_not_completed(2) [of h] by simp
next
  case True
  then obtain folder rest where f: "workspaceFolders h = Some (folder # rest)"
    by (rule completed_has_folder)
  show ?thesis
  proof (cases "probedVersionAtLeast h folder \<or> truthy (config_commandLine h)")
    case e: True
    then show ?thesis
      using assms that [OF f True] extract_completed(2) [OF f True] by auto
  next
    case False
    then show ?thesis
      using assms extract_completed(2) [OF f True] by simp
  qed
qed

lemma enableRunDebugWatch_stringToCmd:
  "enableRunDebugWatch (h\<lparr>stringToCmd := g\<rparr>) (Some x) cl c fd =
     enableRunDebugWatch h (Some x) cl c fd"
  by (simp add: enableRunDebugWatch_def nullish_Some registerWatchHandler_def)

lemma activate_stringToCmd: "activate (h\<lparr>stringToCmd := g\<rparr>) = activate h"
proof (cases "\<exists>folder rest. workspaceFolders h = Some (folder # rest)
    \<and> (config_enable h \<or> isVitestEnv h folder)")
  case False
  then show ?thesis
    by (auto simp: activate_def split: option.splits list.splits)
next
  case True
  then obtain folder rest where f: "workspaceFolders h = Some (folder # rest)"
    and g: "config_enable h \<or> isVitestEnv h folder"
    by blast
  let ?h = "h\<lparr>stringToCmd := g\<rparr>"
  have c: "vitestCmd ?h folder = vitestCmd h folder"
    by (simp add: vitestCmd_def)
  have p: "probeVersion ?h (vitestCmd h folder) = probeVersion h (vitestCmd h folder)"
    by (simp add: probeVersion_def split: settled.splits)
  have r: "runDebugWatchEnabled ?h v cl = runDebugWatchEnabled h v cl" for v cl
    by (simp add: runDebugWatchEnabled_def split: option.splits)
  have w: "controller ?h = controller h"
    by (simp add: controller_def)
  have b: "beforeComparison ?h folder = beforeComparison h folder"
    by (simp add: beforeComparison_def c p w createController_def)
  have e: "enableRunDebugWatch ?h (vitestCmd h folder) cl (controller h) TestFileDiscoverer =
      enableRunDebugWatch h (vitestCmd h folder) cl (controller h) TestFileDiscoverer" for cl
    by (simp add: vitestCmd_Some enableRunDebugWatch_stringToCmd)
  have "workspaceFolders ?h = Some (folder # rest)"
    and "config_enable ?h \<or> isVitestEnv ?h folder"
    using f g by simp_all
  from activate_passed [OF this] activate_passed [OF f g]
  show ?thesis
    by (simp add: c p r w b e discoverVisible_def split: sum.splits)
qed


section \<open>Facts about the sample surroundings\<close>

lemma sample_facts:
  "workspaceFolders sample_env = Some [''/work/app'']"
  "config_enable sample_env"
  "probedVersionAtLeast sample_env ''/work/app''"
  "controller sample_env = sample_ctrl"
  "watcher sample_env ''/work/app'' = sample_watcher"
  "visibleTextEditors sample_env = [TextEditor (TextDocument ''/work/app/a.test.ts'')]"
  by (simp_all add: sample_env_def probedVersionAtLeast_def controller_def watcher_def
      sample_ctrl_def sample_watcher_def runnerCommand_def)

lemma old_runner_facts:
  "workspaceFolders old_runner_env = Some [''/work/app'']"
  "config_enable old_runner_env"
  "\<not> probedVersionAtLeast old_runner_env ''/work/app''"
  "\<not> truthy (config_commandLine old_runner_env)"
  by (simp_all add: old_runner_env_def sample_env_def probedVersionAtLeast_def truthy_def)

lemma failing_probe_facts:
  "workspaceFolders failing_probe_env = Some [''/work/app'']"
  "config_enable failing_probe_env"
  "getVitestVersion failing_probe_env c e = Rejected (Thrown ''Error: spawn npx ENOENT'')"
  "vitestCmd failing_probe_env ''/work/app'' = Some default_command"
  "config_env failing_probe_env = None"
  "\<not> isNodeAvailable failing_probe_env None"
  "process_env_PATH failing_probe_env = Some ''/usr/bin''"
  "JSON_stringify failing_probe_env None = ''null''"
  "\<not> truthy (config_commandLine failing_probe_env)"
  "controller failing_probe_env = sample_ctrl"
  "visibleTextEditors failing_probe_env = [TextEditor (TextDocument ''/work/app/a.test.ts'')]"
  by (simp_all add: failing_probe_env_def sample_env_def truthy_def controller_def
      sample_ctrl_def vitestCmd_def nullish_def)

lemma custom_command_facts:
  "workspaceFolders custom_command_env = Some [''/work/app'']"
  "config_enable custom_command_env"
  "config_commandLine custom_command_env = Some ''yarn test''"
  "truthy (config_commandLine custom_command_env)"
  "\<not> probedVersionAtLeast custom_command_env ''/work/app''"
  "stringToCmd custom_command_env s = \<lparr>cmd = ''yarn'', args = [''test'']\<rparr>"
  "controller custom_command_env = sample_ctrl"
  "runnerCommand custom_command_env ''/work/app'' = \<lparr>cmd = ''npx'', args = [''vitest'']\<rparr>"
  by (simp_all add: custom_command_env_def old_runner_env_def sample_env_def truthy_def
      probedVersionAtLeast_def controller_def sample_ctrl_def runnerCommand_def
      default_command_def)

lemma sample_completed: "activate sample_env = (Completed, snd (activate sample_env))"
  using activate_passed [of sample_env "''/work/app''" "[]"]
    comparison_at_least [of sample_env "''/work/app''" "config_commandLine sample_env"]
  by (simp add: sample_facts)

lemma old_runner_completed:
  "activate old_runner_env = (Completed, snd (activate old_runner_env))"
  using activate_passed [of old_runner_env "''/work/app''" "[]"]
  by (simp add: old_runner_facts runDebugWatchEnabled_def probeVersion_fst old_runner_env_def
      sample_env_def)

lemma custom_command_completed:
  "activate custom_command_env = (Completed, snd (activate custom_command_env))"
  using activate_passed [of custom_command_env "''/work/app''" "[]"]
  by (simp add: custom_command_facts runDebugWatchEnabled_def probeVersion_fst
      custom_command_env_def old_runner_env_def sample_env_def)

lemma sample_fst_completed: "fst (activate sample_env) = Completed"
  by (metis sample_completed fst_conv)

lemma old_runner_fst_completed: "fst (activate old_runner_env) = Completed"
  by (metis old_runner_completed fst_conv)

lemma custom_command_fst_completed: "fst (activate custom_command_env) = Completed"
  by (metis custom_command_completed fst_conv)

lemma sample_profiles:
  "run_profiles (snd (activate sample_env)) =
     [(''Run Tests (Watch Mode)'', Run, WatchModeRunHandler sample_watcher, False),
      (''Run Tests'', Run, BoundRunHandler sample_ctrl (Some sample_watcher), True),
      (''Debug Tests'', Debug, BoundDebugHandler sample_ctrl, True)]"
  using extract_completed(2) [of sample_env "''/work/app''" "[]"] sample_fst_completed
  by (simp add: sample_facts)

text \<open>
  A probe that answers \<^verbatim>\<open>0.8\<close>: the comparison of line 74 throws, the activation rejects
  after \<^verbatim>\<open>console.dir\<close>, and the configured command line enables nothing.
\<close>

lemma activate_throws_on_unparsable_version:
  "truthy (config_commandLine unparsable_version_env)
   \<and> activate unparsable_version_env =
     (Threw (Thrown ''TypeError: Invalid Version: 0.8''),
      [CreateTestController ''vitest.explorer'' ''Vitest'',
       NewTestFileDiscoverer,
       SetRefreshHandler sample_ctrl (RefreshHandler TestFileDiscoverer sample_ctrl),
       SetResolveHandler sample_ctrl (ResolveHandler TestFileDiscoverer sample_ctrl),
       GetVitestCommand ''/work/app'',
       GetVitestVersion (Some default_command) None,
       ConsoleDir (Some ''0.8'')])"
  using activate_passed [of unparsable_version_env "''/work/app''" "[]"]
  by (simp add: unparsable_version_env_def sample_env_def truthy_def runDebugWatchEnabled_def
      probeVersion_def beforeComparison_def createController_def controller_def sample_ctrl_def
      vitestCmd_def nullish_def)

section \<open>Conditional registration\<close>

text \<open>
  Claim C1.  For every activation that runs to completion (it passes its two guards, and
  the version comparison of line 74 returns), the run, debug and watch features are
  registered conditionally.  If the probed runner version is at least 0.8.0 or a custom
  command line is configured (a non-empty string), the commands registered are
  StartWatching, StopWatching and ToggleWatching on the watcher and UpdateSnapshot on the
  controller, the run profiles created are the watch mode, run and debug profiles, and the
  status bar effect is registered.  Otherwise the only commands registered are
  ToggleWatching and UpdateSnapshot, both with a handler that shows the warning message,
  and no run profile is created.
\<close>

theorem conditional_registration:
  assumes "workspaceFolders h = Some (folder # rest)"
    and "fst (activate h) = Completed"
  shows "if probedVersionAtLeast h folder \<or> truthy (config_commandLine h)
         then registered_commands (snd (activate h)) =
                [(StartWatching, StartWatchingFn (watcher h folder)),
                 (StopWatching, StopWatchingFn (watcher h folder)),
                 (ToggleWatching, ToggleWatchingFn (watcher h folder)),
                 (UpdateSnapshot, UpdateSnapshotFn (controller h))]
            \<and> run_profiles (snd (activate h)) =
                [(''Run Tests (Watch Mode)'', Run, WatchModeRunHandler (watcher h folder), False),
                 (''Run Tests'', Run, BoundRunHandler (controller h) (Some (watcher h folder)), True),
                 (''Debug Tests'', Debug, BoundDebugHandler (controller h), True)]
            \<and> RegisterEffect (StatusBarEffect (watcher h folder) StatusBarItem)
                 \<in> set (snd (activate h))
         else registered_commands (snd (activate h)) =
                [(ToggleWatching, ShowWarningFn disabled_msg),
                 (UpdateSnapshot, ShowWarningFn disabled_msg)]
            \<and> call_closure (ShowWarningFn disabled_msg) w test =
                [ShowWarningMessage
                   (''Because Vitest version < 0.8.0, run/debug/watch tests from Vitest extension disabled.''
                      @ [CHR 0x0A])]
            \<and> run_profiles (snd (activate h)) = []"
proof (cases "probedVersionAtLeast h folder \<or> truthy (config_commandLine h)")
  case True
  have "RegisterEffect (StatusBarEffect (watcher h folder) StatusBarItem)
      \<in> set (enableRunDebugWatch h (vitestCmd h folder) (config_commandLine h)
                (controller h) TestFileDiscoverer)"
    by (simp add: enableRunDebugWatch_events)
  then have "RegisterEffect (StatusBarEffect (watcher h folder) StatusBarItem)
      \<in> set (snd (activate h))"
    using True activate_completed [OF assms] by simp
  then show ?thesis
    using True extract_completed(1,2) [OF assms] by simp
next
  case False
  then show ?thesis
    using extract_completed(1,2) [OF assms] by (simp add: disabled_msg_def)
qed

theorem conditional_registration_witness:
  "workspaceFolders sample_env = Some [''/work/app''] \<and> fst (activate sample_env) = Completed
   \<and> registered_commands (snd (activate sample_env)) =
       [(StartWatching, StartWatchingFn sample_watcher),
        (StopWatching, StopWatchingFn sample_watcher),
        (ToggleWatching, ToggleWatchingFn sample_watcher),
        (UpdateSnapshot, UpdateSnapshotFn sample_ctrl)]
   \<and> run_profiles (snd (activate sample_env)) =
       [(''Run Tests (Watch Mode)'', Run, WatchModeRunHandler sample_watcher, False),
        (''Run Tests'', Run, BoundRunHandler sample_ctrl (Some sample_watcher), True),
        (''Debug Tests'', Debug, BoundDebugHandler sample_ctrl, True)]
   \<and> fst (activate old_runner_env) = Completed
   \<and> registered_commands (snd (activate old_runner_env)) =
       [(ToggleWatching, ShowWarningFn disabled_msg),
        (UpdateSnapshot, ShowWarningFn disabled_msg)]
   \<and> run_profiles (snd (activate old_runner_env)) = []"
proof -
  have a: "workspaceFolders sample_env = Some (''/work/app'' # [])"
    and c: "workspaceFolders old_runner_env = Some (''/work/app'' # [])"
    by (simp_all add: sample_facts old_runner_facts)
  have b: "fst (activate sample_env) = Completed"
    by (rule sample_fst_completed)
  have d: "fst (activate old_runner_env) = Completed"
    by (rule old_runner_fst_completed)
  show ?thesis
    using b d conditional_registration [OF a b] conditional_registration [OF c d]
    by (simp add: sample_facts old_runner_facts)
qed

theorem registration_skipped_without_folder:
  "truthy (config_commandLine no_folder_env)
   \<and> registered_commands (snd (activate no_folder_env)) = []
   \<and> run_profiles (snd (activate no_folder_env)) = []"
  by (simp add: no_folder_env_def sample_env_def truthy_def activate_def extract_Nil)

section \<open>The status bar follows the watcher\<close>

text \<open>
  Claim C2.  The status bar call made by the effect is a function of the watcher's
  reactive state alone, with a fixed priority: running mode when \<open>isRunning\<close> holds;
  otherwise watch mode, rendering \<open>testStatus\<close>, when \<open>isWatching\<close> holds; otherwise
  default mode.
\<close>

theorem statusBar_mode_priority:
  "(isRunning w \<longrightarrow>
      call_effect (StatusBarEffect tw sb) w = [StatusBarCall sb ToRunningMode])
   \<and> (\<not> isRunning w \<and> isWatching w \<longrightarrow>
      call_effect (StatusBarEffect tw sb) w = [StatusBarCall sb (ToWatchMode (testStatus w))])
   \<and> (\<not> isRunning w \<and> \<not> isWatching w \<longrightarrow>
      call_effect (StatusBarEffect tw sb) w = [StatusBarCall sb ToDefaultMode])"
  by (simp add: statusBarEffect_def)

theorem statusBar_mode_priority_witness:
  "call_effect (StatusBarEffect sample_watcher StatusBarItem)
      \<lparr>isRunning = True, isWatching = True, testStatus = 4\<rparr> =
     [StatusBarCall StatusBarItem (ToRunningMode :: nat status_bar_call)]
   \<and> call_effect (StatusBarEffect sample_watcher StatusBarItem)
      \<lparr>isRunning = False, isWatching = True, testStatus = 4\<rparr> =
     [StatusBarCall StatusBarItem (ToWatchMode (4::nat))]
   \<and> call_effect (StatusBarEffect sample_watcher StatusBarItem)
      \<lparr>isRunning = False, isWatching = False, testStatus = 4\<rparr> =
     [StatusBarCall StatusBarItem (ToDefaultMode :: nat status_bar_call)]"
  using
    statusBar_mode_priority [where w = "\<lparr>isRunning = True, isWatching = True, testStatus = 4::nat\<rparr>"
      and tw = sample_watcher and sb = StatusBarItem]
    statusBar_mode_priority [where w = "\<lparr>isRunning = False, isWatching = True, testStatus = 4::nat\<rparr>"
      and tw = sample_watcher and sb = StatusBarItem]
    statusBar_mode_priority [where w = "\<lparr>isRunning = False, isWatching = False, testStatus = 4::nat\<rparr>"
      and tw = sample_watcher and sb = StatusBarItem]
  by simp

text \<open>
  The widget cannot go stale between two runs of the effect: a state that differs from
  the last rendered one only in references the last run did not read renders the same.
\<close>

lemma effect_unread_refs_irrelevant:
  assumes "list_all (same_value w w') (effect_reads w)"
  shows "statusBarEffect w' = statusBarEffect w"
  using assms by (auto simp: effect_reads_def same_value_def statusBarEffect_def split: if_splits)

section \<open>A rejected version probe\<close>

text \<open>
  Claim C3.  When the version probe is made and rejects with \<open>e\<close>, activation runs to
  completion.  The error's text, the search path and the configured environment are
  appended to the log channel; when no node process can be spawned one more log line is
  appended and the hint of line 65, on setting \<^verbatim>\<open>vitest.nodeEnv\<close>, is appended to the text
  of the message; the message is shown as an error; and activation goes on with an
  undefined version, so that only a custom command line can enable run, debug and watch.
\<close>

theorem probe_rejection_continues:
  assumes "workspaceFolders h = Some (folder # rest)"
    and "config_enable h \<or> isVitestEnv h folder"
    and "getVitestVersion h (vitestCmd h folder) (config_env h) = Rejected e"
  shows "activate h =
     (Completed,
      (if config_enable h then [] else [IsVitestEnv folder])
      @ createController h (controller h) TestFileDiscoverer
      @ [GetVitestCommand folder,
         GetVitestVersion (vitestCmd h folder) (config_env h),
         LogAppendLine (toString e),
         LogAppendLine (''process.env.PATH = '' @ template (process_env_PATH h)),
         LogAppendLine (''vitest.nodeEnv = '' @ JSON_stringify h (config_env h)),
         IsNodeAvailable (config_env h)]
      @ (if isNodeAvailable h (config_env h) then [ShowErrorMessage (toString e)]
         else [LogAppendLine ''Cannot spawn node process'',
               ShowErrorMessage
                 (toString e
                  @ ''Cannot spawn node process. Please try setting vitest.nodeEnv as {''
                  @ [CHR 0x22] @ ''PATH'' @ [CHR 0x22] @ '': '' @ [CHR 0x22]
                  @ ''/path/to/node'' @ [CHR 0x22] @ ''} in your settings.'')])
      @ [ConsoleDir None]
      @ (if truthy (config_commandLine h)
         then enableRunDebugWatch h (vitestCmd h folder) (config_commandLine h)
                (controller h) TestFileDiscoverer
         else disableRunDebugWatch)
      @ discoverVisible h (controller h) TestFileDiscoverer
      @ registerListeners (controller h) TestFileDiscoverer)"
proof -
  have "probeVersion h (vitestCmd h folder) =
      (None,
       [GetVitestVersion (vitestCmd h folder) (config_env h),
        LogAppendLine (toString e),
        LogAppendLine (''process.env.PATH = '' @ template (process_env_PATH h)),
        LogAppendLine (''vitest.nodeEnv = '' @ JSON_stringify h (config_env h)),
        IsNodeAvailable (config_env h)]
       @ (if isNodeAvailable h (config_env h) then [ShowErrorMessage (toString e)]
          else [LogAppendLine ''Cannot spawn node process'',
                ShowErrorMessage
                  (toString e
                   @ ''Cannot spawn node process. Please try setting vitest.nodeEnv as {''
                   @ [CHR 0x22] @ ''PATH'' @ [CHR 0x22] @ '': '' @ [CHR 0x22]
                   @ ''/path/to/node'' @ [CHR 0x22] @ ''} in your settings.'')]))"
    using assms(3) by (simp add: probeVersion_def spawn_hint_def)
  then show ?thesis
    using activate_passed [OF assms(1,2)] comparison_after_rejection [OF assms(3)]
    by (simp add: beforeComparison_def)
qed

theorem probe_rejection_continues_witness:
  "getVitestVersion failing_probe_env (vitestCmd failing_probe_env ''/work/app'')
      (config_env failing_probe_env) = Rejected (Thrown ''Error: spawn npx ENOENT'')
   \<and> activate failing_probe_env =
     (Completed,
      createController failing_probe_env sample_ctrl TestFileDiscoverer
      @ [GetVitestCommand ''/work/app'',
         GetVitestVersion (Some default_command) None,
         LogAppendLine ''Error: spawn npx ENOENT'',
         LogAppendLine ''process.env.PATH = /usr/bin'',
         LogAppendLine ''vitest.nodeEnv = null'',
         IsNodeAvailable None,
         LogAppendLine ''Cannot spawn node process'',
         ShowErrorMessage
           (''Error: spawn npx ENOENT''
            @ ''Cannot spawn node process. Please try setting vitest.nodeEnv as {''
            @ [CHR 0x22] @ ''PATH'' @ [CHR 0x22] @ '': '' @ [CHR 0x22]
            @ ''/path/to/node'' @ [CHR 0x22] @ ''} in your settings.''),
         ConsoleDir None]
      @ disableRunDebugWatch
      @ [DiscoverTestFromDoc TestFileDiscoverer sample_ctrl (TextDocument ''/work/app/a.test.ts'')]
      @ registerListeners sample_ctrl TestFileDiscoverer)"
proof -
  have a: "workspaceFolders failing_probe_env = Some (''/work/app'' # [])"
    and b: "config_enable failing_probe_env \<or> isVitestEnv failing_probe_env ''/work/app''"
    and c: "getVitestVersion failing_probe_env (vitestCmd failing_probe_env ''/work/app'')
      (config_env failing_probe_env) = Rejected (Thrown ''Error: spawn npx ENOENT'')"
    by (simp_all add: failing_probe_facts)
  show ?thesis
    using probe_rejection_continues [OF a b c]
    by (simp add: failing_probe_facts discoverVisible_def template_def)
qed

section \<open>Document listeners\<close>

text \<open>
  Claim C4.  After an activation that ran to completion, an opened document reaches
  \<^verbatim>\<open>discoverTestFromDoc\<close> with that document, a changed document reaches it with the
  change event's document, and during activation it was called once for each visible
  text editor, with that editor's document, in the editors' order.
\<close>

theorem listeners_discover:
  assumes "activate h = (Completed, tr)"
  shows "onDidOpen tr d = [DiscoverTestFromDoc TestFileDiscoverer (controller h) d]
     \<and> onDidChange tr e = [DiscoverTestFromDoc TestFileDiscoverer (controller h) (event_document e)]
     \<and> discover_calls tr =
         map (\<lambda>x. DiscoverTestFromDoc TestFileDiscoverer (controller h) (editor_document x))
           (visibleTextEditors h)"
proof -
  have c: "fst (activate h) = Completed" and t: "snd (activate h) = tr"
    using assms by simp_all
  from c obtain folder rest where f: "workspaceFolders h = Some (folder # rest)"
    by (rule completed_has_folder)
  show ?thesis
    using t extract_completed(3,4,5) [OF f c]
    by (simp add: onDidOpen_def onDidChange_def discoverVisible_def)
qed

theorem listeners_discover_witness:
  "activate sample_env = (Completed, snd (activate sample_env))
   \<and> onDidOpen (snd (activate sample_env)) (TextDocument ''/work/app/b.test.ts'') =
       [DiscoverTestFromDoc TestFileDiscoverer sample_ctrl (TextDocument ''/work/app/b.test.ts'')]
   \<and> onDidChange (snd (activate sample_env))
         (TextDocumentChangeEvent (TextDocument ''/work/app/a.test.ts'')) =
       [DiscoverTestFromDoc TestFileDiscoverer sample_ctrl (TextDocument ''/work/app/a.test.ts'')]
   \<and> discover_calls (snd (activate sample_env)) =
       [DiscoverTestFromDoc TestFileDiscoverer sample_ctrl (TextDocument ''/work/app/a.test.ts'')]"
proof -
  have a: "activate sample_env = (Completed, snd (activate sample_env))"
    by (rule sample_completed)
  show ?thesis
    using a listeners_discover [OF a]
    by (simp add: sample_facts)
qed

section \<open>The controller's handlers\<close>

text \<open>
  Claim C5.  After an activation that ran to completion, the controller's refresh handler
  discovers all test files of the workspace.  Its resolve handler, called with no item,
  discovers and watches all test files and keeps the watchers among the subscriptions;
  called with an item whose data is a \<open>TestFile\<close>, it updates that file from disk; called
  with any other item, it does nothing.
\<close>

theorem controller_handlers:
  assumes "activate h = (Completed, tr)"
  shows "refresh_handlers tr = [RefreshHandler TestFileDiscoverer (controller h)]
     \<and> call_refresh_handler (RefreshHandler TestFileDiscoverer (controller h)) =
         [DiscoverAllTestFilesInWorkspace TestFileDiscoverer (controller h)]
     \<and> resolve_handlers tr = [ResolveHandler TestFileDiscoverer (controller h)]
     \<and> call_resolve_handler (ResolveHandler TestFileDiscoverer (controller h)) data watched None =
         [WatchAllTestFilesInWorkspace TestFileDiscoverer (controller h), SubscriptionsPush watched]
     \<and> (data i = Some (TestFile f) \<longrightarrow>
         call_resolve_handler (ResolveHandler TestFileDiscoverer (controller h)) data watched (Some i) =
           [UpdateFromDisk (TestFile f) (controller h)])
     \<and> ((\<forall>f. data i \<noteq> Some (TestFile f)) \<longrightarrow>
         call_resolve_handler (ResolveHandler TestFileDiscoverer (controller h)) data watched (Some i) =
           [])"
proof -
  have c: "fst (activate h) = Completed" and t: "snd (activate h) = tr"
    using assms by simp_all
  from c obtain folder rest where f: "workspaceFolders h = Some (folder # rest)"
    by (rule completed_has_folder)
  show ?thesis
    using t extract_completed(6,7) [OF f c]
    by (auto split: option.splits test_data.splits)
qed

theorem controller_handlers_witness:
  "activate sample_env = (Completed, snd (activate sample_env))
   \<and> refresh_handlers (snd (activate sample_env)) = [RefreshHandler TestFileDiscoverer sample_ctrl]
   \<and> resolve_handlers (snd (activate sample_env)) = [ResolveHandler TestFileDiscoverer sample_ctrl]
   \<and> call_resolve_handler (ResolveHandler TestFileDiscoverer sample_ctrl)
         (\<lambda>i. if i = TestItem ''a'' then Some (TestFile ''/work/app/a.test.ts'') else None)
         [] (Some (TestItem ''a'')) =
       [UpdateFromDisk (TestFile ''/work/app/a.test.ts'') sample_ctrl]
   \<and> call_resolve_handler (ResolveHandler TestFileDiscoverer sample_ctrl)
         (\<lambda>i. if i = TestItem ''a'' then Some (TestFile ''/work/app/a.test.ts'') else None)
         [] (Some (TestItem ''b'')) =
       []"
proof -
  have a: "activate sample_env = (Completed, snd (activate sample_env))"
    by (rule sample_completed)
  show ?thesis
    using a
      controller_handlers [OF a,
        where data = "\<lambda>i. if i = TestItem ''a'' then Some (TestFile ''/work/app/a.test.ts'') else None"
        and watched = "[]" and i = "TestItem ''a''" and f = "''/work/app/a.test.ts''"]
      controller_handlers [OF a,
        where data = "\<lambda>i. if i = TestItem ''a'' then Some (TestFile ''/work/app/a.test.ts'') else None"
        and watched = "[]" and i = "TestItem ''b''" and f = "''/work/app/a.test.ts''"]
    by (simp add: sample_facts)
qed

section \<open>The watch mode profile\<close>

text \<open>
  Claim C6.  The handler of every run profile labelled \<^verbatim>\<open>Run Tests (Watch Mode)\<close> that an
  activation creates is the watch mode handler on the activation's watcher.  Called while
  the workspace has no folder (undefined or empty), it returns having called nothing.
  Called while the workspace has at least one folder, it first calls the watcher's
  \<^verbatim>\<open>watch()\<close> and awaits it, and once that has resolved it calls \<^verbatim>\<open>runTests\<close> with
  the request's included tests and returns.
\<close>

theorem watch_mode_run_request:
  assumes "(''Run Tests (Watch Mode)'', k, f, d) \<in> set (run_profiles (snd (activate h)))"
  shows "\<exists>folder rest. workspaceFolders h = Some (folder # rest)
     \<and> f = WatchModeRunHandler (watcher h folder)
     \<and> call_run_handler f folders watched request cancellation =
         snd (watchModeRunHandler (watcher h folder) folders watched request cancellation)
     \<and> watchModeRunHandler (watcher h folder) None watched request cancellation =
         (Resolved (), [])
     \<and> watchModeRunHandler (watcher h folder) (Some []) watched request cancellation =
         (Resolved (), [])
     \<and> watchModeRunHandler (watcher h folder) (Some (x # xs)) (Resolved ()) request cancellation =
         (Resolved (),
          [WatcherWatch (watcher h folder) Awaited,
           WatcherRunTests (watcher h folder) (request_include request)])"
  using assms by (rule run_profiles_cases) (auto simp: watchModeRunHandler_def)

theorem watch_mode_run_request_witness:
  "(''Run Tests (Watch Mode)'', Run, WatchModeRunHandler sample_watcher, False)
      \<in> set (run_profiles (snd (activate sample_env)))
   \<and> call_run_handler (WatchModeRunHandler sample_watcher) (Some [''/work/app'']) (Resolved ())
         (TestRunRequest (Some [TestItem ''a''])) CancellationToken =
       [WatcherWatch sample_watcher Awaited,
        WatcherRunTests sample_watcher (Some [TestItem ''a''])]
   \<and> call_run_handler (WatchModeRunHandler sample_watcher) (Some []) (Resolved ())
         (TestRunRequest (Some [TestItem ''a''])) CancellationToken = []"
proof -
  have a: "(''Run Tests (Watch Mode)'', Run, WatchModeRunHandler sample_watcher, False)
      \<in> set (run_profiles (snd (activate sample_env)))"
    by (simp add: sample_profiles)
  show ?thesis
    using a
      watch_mode_run_request [OF a, where request = "TestRunRequest (Some [TestItem ''a''])"
        and cancellation = CancellationToken and x = "''/work/app''" and xs = "[]"
        and folders = "Some [''/work/app'']" and watched = "Resolved ()"]
    by (auto simp: sample_facts watchModeRunHandler_def)
qed

text \<open>
  What awaiting means here: when \<^verbatim>\<open>watch()\<close> rejects, the handler stops at line 197 and
  rejects with the same error.  The un-awaited \<^verbatim>\<open>watch()\<close> of \<^verbatim>\<open>startWatching\<close> is a
  different call, and the setting is updated whatever becomes of it.
\<close>

lemma watch_rejection_stops_handler:
  "watchModeRunHandler testWatcher (Some (x # xs)) (Rejected e) request cancellation =
     (Rejected e, [WatcherWatch testWatcher Awaited])"
  by (simp add: watchModeRunHandler_def)

lemma startWatching_does_not_await:
  "call_closure (StartWatchingFn testWatcher) w test =
     [WatcherWatch testWatcher NotAwaited,
      ConfigurationUpdate ''testing'' ''automaticallyOpenPeekView'' (Some ''never'')]"
  by (simp add: startWatching_def)

section \<open>The run and debug profiles\<close>

text \<open>
  Claim C7.  Every run profile labelled \<^verbatim>\<open>Run Tests\<close> that an activation creates is a
  default profile of kind Run whose handler is the run handler bound to the controller
  and the watcher, so a request on it calls that handler with the controller, the
  watcher, the request and the token.  Every profile labelled \<^verbatim>\<open>Debug Tests\<close> is a default
  profile of kind Debug whose handler is the debug handler bound to the controller.
\<close>

theorem run_debug_profiles:
  "((''Run Tests'', k, f, d) \<in> set (run_profiles (snd (activate h))) \<longrightarrow>
      (\<exists>folder rest. workspaceFolders h = Some (folder # rest)
         \<and> k = Run \<and> d
         \<and> f = BoundRunHandler (controller h) (Some (watcher h folder))
         \<and> call_run_handler f folders watched request cancellation =
             [RunHandlerCall (controller h) (Some (watcher h folder)) request cancellation]))
   \<and> ((''Debug Tests'', k, f, d) \<in> set (run_profiles (snd (activate h))) \<longrightarrow>
      k = Debug \<and> d
      \<and> f = BoundDebugHandler (controller h)
      \<and> call_run_handler f folders watched request cancellation =
          [DebugHandlerCall (controller h) request cancellation])"
proof (intro conjI impI)
  assume "(''Run Tests'', k, f, d) \<in> set (run_profiles (snd (activate h)))"
  then show "\<exists>folder rest. workspaceFolders h = Some (folder # rest)
         \<and> k = Run \<and> d
         \<and> f = BoundRunHandler (controller h) (Some (watcher h folder))
         \<and> call_run_handler f folders watched request cancellation =
             [RunHandlerCall (controller h) (Some (watcher h folder)) request cancellation]"
    by (rule run_profiles_cases) auto
next
  assume *: "(''Debug Tests'', k, f, d) \<in> set (run_profiles (snd (activate h)))"
  show "k = Debug" using * by (rule run_profiles_cases) auto
  show d using * by (rule run_profiles_cases) auto
  show "f = BoundDebugHandler (controller h)" using * by (rule run_profiles_cases) auto
  then show "call_run_handler f folders watched request cancellation =
      [DebugHandlerCall (controller h) request cancellation]"
    by simp
qed

theorem run_debug_profiles_witness:
  "(''Run Tests'', Run, BoundRunHandler sample_ctrl (Some sample_watcher), True)
      \<in> set (run_profiles (snd (activate sample_env)))
   \<and> (''Debug Tests'', Debug, BoundDebugHandler sample_ctrl, True)
      \<in> set (run_profiles (snd (activate sample_env)))
   \<and> call_run_handler (BoundRunHandler sample_ctrl (Some sample_watcher)) (Some [''/work/app''])
         (Resolved ()) (TestRunRequest None) CancellationToken =
       [RunHandlerCall sample_ctrl (Some sample_watcher) (TestRunRequest None) CancellationToken]
   \<and> call_run_handler (BoundDebugHandler sample_ctrl) (Some [''/work/app''])
         (Resolved ()) (TestRunRequest None) CancellationToken =
       [DebugHandlerCall sample_ctrl (TestRunRequest None) CancellationToken]"
proof -
  have a: "(''Run Tests'', Run, BoundRunHandler sample_ctrl (Some sample_watcher), True)
      \<in> set (run_profiles (snd (activate sample_env)))"
    and b: "(''Debug Tests'', Debug, BoundDebugHandler sample_ctrl, True)
      \<in> set (run_profiles (snd (activate sample_env)))"
    by (simp_all add: sample_profiles)
  show ?thesis
    using a b
      run_debug_profiles [where k = Run and f = "BoundRunHandler sample_ctrl (Some sample_watcher)"
        and d = True and h = sample_env and folders = "Some [''/work/app'']"
        and watched = "Resolved ()"
        and request = "TestRunRequest None" and cancellation = CancellationToken]
      run_debug_profiles [where k = Debug and f = "BoundDebugHandler sample_ctrl"
        and d = True and h = sample_env and folders = "Some [''/work/app'']"
        and watched = "Resolved ()"
        and request = "TestRunRequest None" and cancellation = CancellationToken]
    by (auto simp: sample_facts)
qed

section \<open>Only registered callbacks run after activation\<close>






section \<open>The guards of activation\<close>

text \<open>
  Claim C9.  When the workspace has no folder, activation returns having made no host
  call at all.  When the extension is not enabled and the first folder is not a Vitest
  environment, activation returns having asked only that question: no controller is
  created, no version is probed, and no command or listener is registered.
\<close>

theorem activate_noop:
  "(workspaceFolders h = None \<or> workspaceFolders h = Some [] \<longrightarrow>
      activate h = (ReturnedEarly, []))
   \<and> (workspaceFolders h = Some (folder # rest) \<and> \<not> config_enable h \<and> \<not> isVitestEnv h folder \<longrightarrow>
      activate h = (ReturnedEarly, [IsVitestEnv folder]))"
  by (auto simp: activate_def)

theorem activate_noop_witness:
  "workspaceFolders no_folder_env = None
   \<and> activate no_folder_env = (ReturnedEarly, [])
   \<and> workspaceFolders not_vitest_env = Some [''/work/app'']
   \<and> \<not> config_enable not_vitest_env \<and> \<not> isVitestEnv not_vitest_env ''/work/app''
   \<and> activate not_vitest_env = (ReturnedEarly, [IsVitestEnv ''/work/app''])"
  using activate_noop [where h = no_folder_env]
    activate_noop [where h = not_vitest_env and folder = "''/work/app''" and rest = "[]"]
  by (simp add: no_folder_env_def not_vitest_env_def sample_env_def)

section \<open>The command of the watcher\<close>

text \<open>
  Claim C10.  The guard of \<^verbatim>\<open>registerWatchHandler\<close> returns nothing for an undefined
  command, but the command activation passes is always defined: it is the local runner's
  command or the default \<^verbatim>\<open>npx vitest\<close>.  So the watcher is built on that command, the
  result of activation does not depend on \<^verbatim>\<open>stringToCmd\<close> (the fallback is never
  evaluated and the custom command line never becomes the watch command), and whenever
  an activation that runs to completion takes the branch of line 74, exactly one watcher
  is created.
\<close>

theorem custom_command_unused:
  "registerWatchHandler h None c fd = (None, [])
   \<and> nullish (vitestCmd h folder) (Some (stringToCmd h cl)) = Some (runnerCommand h folder)
   \<and> fst (registerWatchHandler h (nullish (vitestCmd h folder) (Some (stringToCmd h cl))) c fd) =
       Some (TestWatcher c fd (runnerCommand h folder))
   \<and> activate (h\<lparr>stringToCmd := g\<rparr>) = activate h
   \<and> (workspaceFolders h = Some (folder # rest) \<and> fst (activate h) = Completed
        \<and> (probedVersionAtLeast h folder \<or> truthy (config_commandLine h)) \<longrightarrow>
       created_watchers (snd (activate h)) =
         [TestWatcher (controller h) TestFileDiscoverer (runnerCommand h folder)])"
proof (intro conjI impI)
  show "registerWatchHandler h None c fd = (None, [])"
    by (simp add: registerWatchHandler_def)
  show "nullish (vitestCmd h folder) (Some (stringToCmd h cl)) = Some (runnerCommand h folder)"
    by (simp add: vitestCmd_Some nullish_Some)
  then show "fst (registerWatchHandler h (nullish (vitestCmd h folder) (Some (stringToCmd h cl))) c fd) =
       Some (TestWatcher c fd (runnerCommand h folder))"
    by (simp add: registerWatchHandler_def Let_def)
  show "activate (h\<lparr>stringToCmd := g\<rparr>) = activate h"
    by (rule activate_stringToCmd)
next
  assume a: "workspaceFolders h = Some (folder # rest) \<and> fst (activate h) = Completed
        \<and> (probedVersionAtLeast h folder \<or> truthy (config_commandLine h))"
  then show "created_watchers (snd (activate h)) =
      [TestWatcher (controller h) TestFileDiscoverer (runnerCommand h folder)]"
    using extract_completed(8) [of h folder rest] by (simp add: watcher_def)
qed

theorem custom_command_unused_witness:
  "config_commandLine custom_command_env = Some ''yarn test''
   \<and> stringToCmd custom_command_env (Some ''yarn test'') = \<lparr>cmd = ''yarn'', args = [''test'']\<rparr>
   \<and> \<not> probedVersionAtLeast custom_command_env ''/work/app''
   \<and> fst (activate custom_command_env) = Completed
   \<and> created_watchers (snd (activate custom_command_env)) =
       [TestWatcher sample_ctrl TestFileDiscoverer \<lparr>cmd = ''npx'', args = [''vitest'']\<rparr>]"
proof -
  have b: "fst (activate custom_command_env) = Completed"
    by (rule custom_command_fst_completed)
  show ?thesis
    using b
      custom_command_unused [where h = custom_command_env and folder = "''/work/app''"
        and rest = "[]" and c = sample_ctrl and fd = TestFileDiscoverer
        and cl = "config_commandLine custom_command_env" and g = "\<lambda>s. default_command"]
    by (simp add: custom_command_facts truthy_def)
qed

end
